theory Spec2Isabelle
  imports Complex_Main
begin

section \<open>Python values used by the screensaver widgets\<close>

text \<open>
  The two animation widgets (\<^verbatim>\<open>src/mystify_widget.py\<close>, the curve engine, and
  \<^verbatim>\<open>src/sidekick_widget.py\<close>, the rain engine) are embedded as pure functions on
  records of the widgets' attributes. Python \<^verbatim>\<open>int\<close> is \<^typ>\<open>int\<close>, a Python
  \<^verbatim>\<open>float\<close> is the real number it denotes (arithmetic is exact in the model), and
  everything a method reads from outside the object (the clock, psutil, the interrupt
  table, the random module, the screen geometry) is an argument of its model.
\<close>

datatype py_error = ValueError | IndexError | ZeroDivisionError

text \<open>\<^verbatim>\<open>int(x)\<close> on a float truncates towards zero.\<close>

definition py_int :: "real \<Rightarrow> int" where
  "py_int x = (if 0 \<le> x then \<lfloor>x\<rfloor> else \<lceil>x\<rceil>)"

text \<open>\<^verbatim>\<open>x % y\<close> on floats: the result has the sign of the divisor.\<close>

definition py_fmod :: "real \<Rightarrow> real \<Rightarrow> real" where
  "py_fmod x y = x - of_int \<lfloor>x / y\<rfloor> * y"

subsection \<open>Strings of the interrupt table\<close>

text \<open>
  \<^verbatim>\<open>/proc/interrupts\<close> is ASCII text; the string methods are modelled on ASCII
  characters, and \<^verbatim>\<open>int\<close> on a digit string is unbounded.
\<close>

definition is_upper :: "char \<Rightarrow> bool" where
  "is_upper c = (65 \<le> (of_char c :: nat) \<and> (of_char c :: nat) \<le> 90)"

definition lower_char :: "char \<Rightarrow> char" where
  "lower_char c = (if is_upper c then char_of ((of_char c :: nat) + 32) else c)"

definition lower :: "string \<Rightarrow> string" where
  "lower s = map lower_char s"

definition is_space :: "char \<Rightarrow> bool" where
  "is_space c = ((of_char c :: nat) = 32 \<or> (9 \<le> (of_char c :: nat) \<and> (of_char c :: nat) \<le> 13)
     \<or> (28 \<le> (of_char c :: nat) \<and> (of_char c :: nat) \<le> 31))"

definition is_digit_char :: "char \<Rightarrow> bool" where
  "is_digit_char c = (48 \<le> (of_char c :: nat) \<and> (of_char c :: nat) \<le> 57)"

definition isdigit :: "string \<Rightarrow> bool" where
  "isdigit s = (s \<noteq> [] \<and> list_all is_digit_char s)"

definition int_of_digits :: "string \<Rightarrow> int" where
  "int_of_digits s = foldl (\<lambda>a c. 10 * a + (int (of_char c) - 48)) 0 s"

fun starts_with :: "string \<Rightarrow> string \<Rightarrow> bool" where
  "starts_with s [] = True"
| "starts_with [] (d # sub) = False"
| "starts_with (c # s) (d # sub) = (c = d \<and> starts_with s sub)"

text \<open>\<^verbatim>\<open>sub in s\<close>.\<close>

fun str_contains :: "string \<Rightarrow> string \<Rightarrow> bool" where
  "str_contains [] sub = (sub = [])"
| "str_contains (c # s) sub = (starts_with (c # s) sub \<or> str_contains s sub)"

text \<open>\<^verbatim>\<open>s.split(d)\<close> with a one-character separator keeps empty pieces.\<close>

fun split_on :: "char \<Rightarrow> string \<Rightarrow> string list" where
  "split_on d [] = [[]]"
| "split_on d (c # cs) =
     (if c = d then [] # split_on d cs
      else (case split_on d cs of [] \<Rightarrow> [[c]] | w # ws \<Rightarrow> (c # w) # ws))"

text \<open>\<^verbatim>\<open>s.split()\<close>: pieces between runs of whitespace, no empty piece. The first
  argument is the piece being read, reversed.\<close>

fun split_ws :: "string \<Rightarrow> string \<Rightarrow> string list" where
  "split_ws w [] = (if w = [] then [] else [rev w])"
| "split_ws w (c # cs) =
     (if is_space c then (if w = [] then split_ws [] cs else rev w # split_ws [] cs)
      else split_ws (c # w) cs)"

definition py_split :: "string \<Rightarrow> string list" where
  "py_split s = split_ws [] s"

section \<open>ActivitySignal: \<^verbatim>\<open>check_usb_activity\<close>\<close>

definition keyword_list :: "string list" where
  "keyword_list = [''usb'', ''ehci'', ''ohci'', ''xhci'', ''hid'', ''input'', ''mouse'', ''keyboard'']"

definition is_usb_line :: "string \<Rightarrow> bool" where
  "is_usb_line line_lower = (str_contains line_lower ''usb'' \<or> str_contains line_lower ''ehci''
     \<or> str_contains line_lower ''ohci'' \<or> str_contains line_lower ''xhci'')"

text \<open>The loop over \<^verbatim>\<open>parts[1:]\<close>: digit columns are added up to the first column
  that is not a number, where the loop breaks.\<close>

fun sum_columns :: "string list \<Rightarrow> int" where
  "sum_columns [] = 0"
| "sum_columns (p # ps) = (if isdigit p then int_of_digits p + sum_columns ps else 0)"

text \<open>One line of the table; the pair is \<^verbatim>\<open>(usb_interrupts, hid_interrupts)\<close>.\<close>

definition count_line :: "int \<times> int \<Rightarrow> string \<Rightarrow> int \<times> int" where
  "count_line acc line =
     (let line_lower = lower line in
      if list_ex (\<lambda>keyword. str_contains line_lower keyword) keyword_list then
        (let parts = py_split line in
         if length parts > 1 then
           (if is_usb_line line_lower then (fst acc + sum_columns (tl parts), snd acc)
            else (fst acc, snd acc + sum_columns (tl parts)))
         else acc)
      else acc)"

definition count_interrupts :: "string \<Rightarrow> int \<times> int" where
  "count_interrupts content = foldl count_line (0, 0) (split_on CHR 0x0A content)"

definition total_interrupts :: "string \<Rightarrow> int" where
  "total_interrupts content = fst (count_interrupts content) + snd (count_interrupts content)"

text \<open>
  The part of each widget that \<^verbatim>\<open>check_usb_activity\<close> reads and writes. The argument
  \<open>source\<close> is the content of \<^verbatim>\<open>/proc/interrupts\<close>, or \<open>None\<close> when opening or
  reading it raises; the result pairs the new state with whether \<^verbatim>\<open>exit_requested\<close>
  was emitted.
\<close>

record usb_monitor =
  usb_interrupt_baseline :: "int option"
  last_usb_check :: real
  screensaver_start_time :: real

text \<open>The curve widget: 10 s grace period, threshold 50.\<close>

definition mystify_check_usb_activity ::
  "usb_monitor \<Rightarrow> real \<Rightarrow> string option \<Rightarrow> usb_monitor \<times> bool" where
  "mystify_check_usb_activity m current_time source =
     (if current_time - screensaver_start_time m < 10 then (m, False)
      else (case source of
          None \<Rightarrow> (m, False)
        | Some content \<Rightarrow>
            (case usb_interrupt_baseline m of
               None \<Rightarrow> (m\<lparr>usb_interrupt_baseline := Some (total_interrupts content)\<rparr>, False)
             | Some baseline \<Rightarrow>
                 (if total_interrupts content - baseline > 50
                  then (m\<lparr>usb_interrupt_baseline := Some (total_interrupts content)\<rparr>, True)
                  else (m\<lparr>usb_interrupt_baseline := Some (total_interrupts content)\<rparr>, False)))))"

text \<open>The rain widget: no grace period, any positive difference; a failed read is
  reported at most every 5 s, which moves \<^verbatim>\<open>last_usb_check\<close>.\<close>

definition sidekick_check_usb_activity ::
  "usb_monitor \<Rightarrow> real \<Rightarrow> string option \<Rightarrow> usb_monitor \<times> bool" where
  "sidekick_check_usb_activity m current_time source =
     (case source of
        None \<Rightarrow>
          (if current_time - last_usb_check m > 5 then (m\<lparr>last_usb_check := current_time\<rparr>, False)
           else (m, False))
      | Some content \<Rightarrow>
          (case usb_interrupt_baseline m of
             None \<Rightarrow> (m\<lparr>usb_interrupt_baseline := Some (total_interrupts content)\<rparr>, False)
           | Some baseline \<Rightarrow>
               (if total_interrupts content - baseline > 0
                then (m\<lparr>usb_interrupt_baseline := Some (total_interrupts content)\<rparr>, True)
                else (m\<lparr>usb_interrupt_baseline := Some (total_interrupts content)\<rparr>, False))))"

section \<open>The random module\<close>

text \<open>
  The generator is an argument: a sequence of raw draws and the number of draws consumed.
  \<^verbatim>\<open>random.randint(a, b)\<close> returns an integer \<open>a \<le> n \<le> b\<close> (both ends included) and
  raises \<^verbatim>\<open>ValueError\<close> on an empty range; \<^verbatim>\<open>random.uniform(a, b)\<close> is
  \<^verbatim>\<open>a + (b - a) * random()\<close> with \<^verbatim>\<open>random()\<close> a multiple of \<open>2\<^sup>-\<^sup>5\<^sup>3\<close> in \<open>[0, 1)\<close>.
\<close>

type_synonym rng = "(nat \<Rightarrow> nat) \<times> nat"

definition randint :: "int \<Rightarrow> int \<Rightarrow> rng \<Rightarrow> py_error + (int \<times> rng)" where
  "randint a b g =
     (if b < a then Inl ValueError
      else Inr (a + int (fst g (snd g) mod nat (b - a + 1)), (fst g, Suc (snd g))))"

definition uniform :: "real \<Rightarrow> real \<Rightarrow> rng \<Rightarrow> real \<times> rng" where
  "uniform a b g =
     (a + (b - a) * (real (fst g (snd g) mod 2 ^ 53) / 2 ^ 53), (fst g, Suc (snd g)))"

section \<open>The curve engine: \<^verbatim>\<open>MystifyWidget\<close>\<close>

type_synonym point = "real \<times> real"

datatype path_element = MoveTo point | LineTo point | CubicTo point point point | CloseSubpath

type_synonym path = "path_element list"

record shape =
  control_points :: "point list"
  velocities :: "point list"
  control_velocities :: "point list"
  color_hue :: real
  color_shift :: real
  size_factor :: real
  curve_tension :: real

text \<open>The keys of the settings dictionary that the modelled methods read; \<open>None\<close> is
  a missing key.\<close>

record mystify_settings =
  mystify_shapes :: "int option"
  mystify_trail_length :: "int option"
  mystify_complexity :: "int option"
  mystify_speed :: "int option"
  fps :: "int option"
  target_fps :: "int option"
  power_saving_mode :: "bool option"
  energy_efficient :: "bool option"

text \<open>\<^verbatim>\<open>d.get(key, default)\<close>.\<close>

definition dict_get :: "'a option \<Rightarrow> 'a \<Rightarrow> 'a" where
  "dict_get v d = (case v of None \<Rightarrow> d | Some a \<Rightarrow> a)"

text \<open>The attributes of the widget; \<open>timer_interval\<close> is the interval of
  \<^verbatim>\<open>self.timer\<close>, \<open>last_activity_check\<close> is \<open>None\<close> until the attribute exists.\<close>

record mystify_widget =
  settings :: mystify_settings
  num_shapes :: int
  trail_length :: int
  shape_complexity :: int
  speed :: int
  shapes :: "shape list"
  shape_trails :: "path list list"
  timer_interval :: int
  frame_count :: nat
  frame_times :: "real list"
  is_emergency_throttled :: bool
  quality_level :: real
  frame_skip_ratio :: int
  last_activity_check :: "real option"

definition cpu_threshold :: real where "cpu_threshold = 40"

definition memory_threshold :: real where "memory_threshold = 70"

definition emergency_cpu_threshold :: real where "emergency_cpu_threshold = 90"

subsection \<open>\<^verbatim>\<open>init_shapes\<close>\<close>

text \<open>The inner loop: one control point, its velocity and its handle velocity per
  round, in the order of the source's draws.\<close>

fun init_control_points ::
  "nat \<Rightarrow> int \<Rightarrow> int \<Rightarrow> real \<Rightarrow> rng \<Rightarrow> py_error + ((point list \<times> point list \<times> point list) \<times> rng)" where
  "init_control_points 0 width height spd g = Inr (([], [], []), g)"
| "init_control_points (Suc n) width height spd g =
     (case randint 100 (width - 100) g of
        Inl e \<Rightarrow> Inl e
      | Inr (x, g1) \<Rightarrow>
     (case randint 100 (height - 100) g1 of
        Inl e \<Rightarrow> Inl e
      | Inr (y, g2) \<Rightarrow>
     (let (vx, g3) = uniform (- spd) spd g2;
          (vy, g4) = uniform (- spd) spd g3;
          (cvx, g5) = uniform (- spd * 0.5) (spd * 0.5) g4;
          (cvy, g6) = uniform (- spd * 0.5) (spd * 0.5) g5
      in case init_control_points n width height spd g6 of
           Inl e \<Rightarrow> Inl e
         | Inr ((ps, vs, cs), g7) \<Rightarrow>
             Inr (((real_of_int x, real_of_int y) # ps, (vx, vy) # vs, (cvx, cvy) # cs), g7))))"

text \<open>One round of the outer loop.\<close>

definition init_shape :: "int \<Rightarrow> int \<Rightarrow> int \<Rightarrow> int \<Rightarrow> rng \<Rightarrow> py_error + (shape \<times> rng)" where
  "init_shape complexity spd width height g =
     (case randint 0 360 g of
        Inl e \<Rightarrow> Inl e
      | Inr (hue, g1) \<Rightarrow>
     (let (shift, g2) = uniform 0.5 2.0 g1;
          (size, g3) = uniform 0.1 0.3 g2;
          (tension, g4) = uniform 0.3 0.8 g3;
          num_control_points = max 3 (complexity div 2)
      in case init_control_points (nat num_control_points) width height (real_of_int spd) g4 of
           Inl e \<Rightarrow> Inl e
         | Inr ((ps, vs, cs), g5) \<Rightarrow>
             Inr (\<lparr>control_points = ps, velocities = vs, control_velocities = cs,
                   color_hue = real_of_int hue, color_shift = shift, size_factor = size,
                   curve_tension = tension\<rparr>, g5)))"

fun init_shape_list :: "nat \<Rightarrow> int \<Rightarrow> int \<Rightarrow> int \<Rightarrow> int \<Rightarrow> rng \<Rightarrow> py_error + (shape list \<times> rng)" where
  "init_shape_list 0 complexity spd width height g = Inr ([], g)"
| "init_shape_list (Suc n) complexity spd width height g =
     (case init_shape complexity spd width height g of
        Inl e \<Rightarrow> Inl e
      | Inr (s, g1) \<Rightarrow>
     (case init_shape_list n complexity spd width height g1 of
        Inl e \<Rightarrow> Inl e
      | Inr (ss, g2) \<Rightarrow> Inr (s # ss, g2)))"

text \<open>\<open>width\<close> and \<open>height\<close> are the geometry of the primary screen.\<close>

definition init_shapes :: "mystify_widget \<Rightarrow> int \<Rightarrow> int \<Rightarrow> rng \<Rightarrow> py_error + (mystify_widget \<times> rng)" where
  "init_shapes w width height g =
     (case init_shape_list (nat (num_shapes w)) (shape_complexity w) (speed w) width height g of
        Inl e \<Rightarrow> Inl e
      | Inr (ss, g1) \<Rightarrow> Inr (w\<lparr>shapes := ss, shape_trails := replicate (length ss) []\<rparr>, g1))"

text \<open>\<^verbatim>\<open>__init__\<close>, as far as it sets the attributes above.\<close>

definition mystify_widget_init ::
  "mystify_settings \<Rightarrow> int \<Rightarrow> int \<Rightarrow> rng \<Rightarrow> py_error + (mystify_widget \<times> rng)" where
  "mystify_widget_init st width height g =
     (let fps0 = dict_get (fps st) (dict_get (target_fps st) 30);
          fps1 = (if fps0 = 0 then 60 else fps0)
      in init_shapes
           \<lparr>settings = st,
            num_shapes = dict_get (mystify_shapes st) 3,
            trail_length = dict_get (mystify_trail_length st) 50,
            shape_complexity = dict_get (mystify_complexity st) 6,
            speed = dict_get (mystify_speed st) 2,
            shapes = [], shape_trails = [],
            timer_interval = 1000 div fps1,
            frame_count = 0, frame_times = [],
            is_emergency_throttled = False,
            quality_level = 1.0,
            frame_skip_ratio = 1,
            last_activity_check = None\<rparr> width height g)"

subsection \<open>\<^verbatim>\<open>create_smooth_curve\<close>\<close>

definition curve_segment :: "point list \<Rightarrow> real \<Rightarrow> nat \<Rightarrow> path_element" where
  "curve_segment cps tension i =
     (let current = cps ! i;
          next_point = cps ! ((i + 1) mod length cps);
          prev_point = (if i > 0 then cps ! (i - 1) else last cps);
          next_next = cps ! ((i + 2) mod length cps);
          handle1_x = fst current + (fst next_point - fst prev_point) * tension * 0.25;
          handle1_y = snd current + (snd next_point - snd prev_point) * tension * 0.25;
          handle2_x = fst next_point - (fst next_next - fst current) * tension * 0.25;
          handle2_y = snd next_point - (snd next_next - snd current) * tension * 0.25
      in CubicTo (handle1_x, handle1_y) (handle2_x, handle2_y) next_point)"

definition create_smooth_curve :: "point list \<Rightarrow> real \<Rightarrow> path" where
  "create_smooth_curve cps tension =
     (if length cps < 3 then
        (case cps of [] \<Rightarrow> [] | p # ps \<Rightarrow> MoveTo p # map LineTo ps @ [CloseSubpath])
      else MoveTo (hd cps) # map (curve_segment cps tension) [0..<length cps] @ [CloseSubpath])"

subsection \<open>\<^verbatim>\<open>_update_shape_animations\<close>\<close>

text \<open>The two local variables of the trail limit.\<close>

definition min_trail :: "int \<Rightarrow> int" where
  "min_trail L = max 5 (L div 4)"

definition max_trail :: "int \<Rightarrow> real \<Rightarrow> int" where
  "max_trail L q = max (min_trail L) (py_int (real_of_int L * q))"

text \<open>Appending the current curve and limiting the trail: \<^verbatim>\<open>append\<close>, then one
  \<^verbatim>\<open>pop(0)\<close> when the trail is longer than \<^verbatim>\<open>max_trail\<close>.\<close>

definition store_curve :: "int \<Rightarrow> real \<Rightarrow> path \<Rightarrow> path list \<Rightarrow> path list" where
  "store_curve L q current_curve trail =
     (let trail1 = trail @ [current_curve]
      in if int (length trail1) > max_trail L q then tl trail1 else trail1)"

text \<open>The loop over the control points; \<^verbatim>\<open>velocities[j]\<close> raises when the velocity
  list is shorter than the point list.\<close>

fun move_points ::
  "real \<Rightarrow> real \<Rightarrow> real \<Rightarrow> point list \<Rightarrow> point list \<Rightarrow> py_error + (point list \<times> point list)" where
  "move_points width height speed_multiplier [] vs = Inr ([], vs)"
| "move_points width height speed_multiplier (p # ps) [] = Inl IndexError"
| "move_points width height speed_multiplier (p # ps) (v # vs) =
     (let new_x = fst p + fst v * speed_multiplier;
          new_y = snd p + snd v * speed_multiplier;
          (vx, x1) = (if new_x \<le> 0 \<or> new_x \<ge> width then (- fst v, max 0 (min width new_x))
                      else (fst v, new_x));
          (vy, y1) = (if new_y \<le> 0 \<or> new_y \<ge> height then (- snd v, max 0 (min height new_y))
                      else (snd v, new_y))
      in case move_points width height speed_multiplier ps vs of
           Inl e \<Rightarrow> Inl e
         | Inr (ps1, vs1) \<Rightarrow> Inr ((x1, y1) # ps1, (vx, vy) # vs1))"

text \<open>The body of the loop over the shapes, for the shape at index \<open>i\<close>.\<close>

definition update_shape ::
  "int \<Rightarrow> int \<Rightarrow> nat \<Rightarrow> mystify_widget \<times> rng \<Rightarrow> py_error + (mystify_widget \<times> rng)" where
  "update_shape width height i wg =
     (let w = fst wg; g = snd wg; shape = shapes w ! i in
      case (if quality_level w > 0.7 \<or> frame_count w mod 2 = 0 then
              (if i < length (shape_trails w) then
                 Inr (w\<lparr>shape_trails := (shape_trails w)
                        [i := store_curve (trail_length w) (quality_level w)
                                (create_smooth_curve (control_points shape) (curve_tension shape))
                                (shape_trails w ! i)]\<rparr>)
               else Inl IndexError)
            else Inr w) of
        Inl e \<Rightarrow> Inl e
      | Inr w1 \<Rightarrow>
     (let speed_multiplier = (if quality_level w1 > 0.5 then quality_level w1 else 0.5) in
      case move_points (real_of_int width) (real_of_int height) speed_multiplier
             (control_points shape) (velocities shape) of
        Inl e \<Rightarrow> Inl e
      | Inr (cps, vels) \<Rightarrow>
     (let (d, g1) = uniform (- 0.01) 0.01 g;
          tension = max 0.2 (min 1.0 (curve_tension shape + d));
          hue = (if quality_level w1 > 0.7 \<or> frame_count w1 mod 3 = 0
                 then py_fmod (color_hue shape + color_shift shape) 360
                 else color_hue shape)
      in Inr (w1\<lparr>shapes := (shapes w1)
                [i := shape\<lparr>control_points := cps, velocities := vels,
                            curve_tension := tension, color_hue := hue\<rparr>]\<rparr>, g1))))"

fun update_loop ::
  "int \<Rightarrow> int \<Rightarrow> nat list \<Rightarrow> mystify_widget \<times> rng \<Rightarrow> py_error + (mystify_widget \<times> rng)" where
  "update_loop width height [] wg = Inr wg"
| "update_loop width height (i # idxs) wg =
     (case update_shape width height i wg of
        Inl e \<Rightarrow> Inl e
      | Inr wg1 \<Rightarrow> update_loop width height idxs wg1)"

text \<open>All shapes are visited, starting at \<^verbatim>\<open>frame_count % len(self.shapes)\<close>, which
  raises when there is no shape.\<close>

definition update_shape_animations ::
  "mystify_widget \<Rightarrow> int \<Rightarrow> int \<Rightarrow> rng \<Rightarrow> py_error + (mystify_widget \<times> rng)" where
  "update_shape_animations w width height g =
     (if shapes w = [] then Inl ZeroDivisionError
      else update_loop width height
             (map (\<lambda>idx. (frame_count w mod length (shapes w) + idx) mod length (shapes w))
                  [0..<length (shapes w)])
             (w, g))"

subsection \<open>PerformanceGovernor of the curve engine\<close>

text \<open>What \<^verbatim>\<open>psutil.cpu_percent(interval=0)\<close> returned, as the \<^verbatim>\<open>isinstance\<close> tests
  see it, and one sample of the two metrics. A sample \<open>None\<close> is a missing psutil
  (\<^verbatim>\<open>ImportError\<close>).\<close>

datatype cpu_reading = CpuNumber real | CpuList "real list" | CpuOther

record psutil_sample =
  cpu_percent :: cpu_reading
  memory_percent :: real

text \<open>\<^verbatim>\<open>_apply_performance_optimizations\<close>: the new state and whether the frame is
  skipped.\<close>

definition apply_performance_optimizations :: "mystify_widget \<Rightarrow> real \<Rightarrow> mystify_widget \<times> bool" where
  "apply_performance_optimizations w current_time =
     (if dict_get (power_saving_mode (settings w)) False \<and> frame_count w mod 2 \<noteq> 0 then (w, True)
      else
        (let w1 = (if dict_get (power_saving_mode (settings w)) False
                   then w\<lparr>quality_level := min 0.6 (quality_level w)\<rparr> else w);
             w2 = (if dict_get (energy_efficient (settings w1)) True \<and> frame_count w1 mod 5 = 0 then
                     (case last_activity_check w1 of
                        Some t \<Rightarrow>
                          (if current_time - t > 30
                           then w1\<lparr>quality_level := min 0.7 (quality_level w1)\<rparr> else w1)
                      | None \<Rightarrow> w1\<lparr>last_activity_check := Some current_time\<rparr>)
                   else w1)
         in (w2, False)))"

text \<open>\<^verbatim>\<open>adaptive_performance_adjustment\<close>, in its three blocks.\<close>

definition adjust_for_frame_time :: "mystify_widget \<Rightarrow> mystify_widget" where
  "adjust_for_frame_time w =
     (if frame_times w \<noteq> [] then
        (let avg_frame_time = sum_list (frame_times w) / real (length (frame_times w));
             target_frame_time = 1.0 / 30.0
         in if avg_frame_time > target_frame_time * 2.0
            then w\<lparr>quality_level := max 0.5 (quality_level w - 0.05)\<rparr>
            else if avg_frame_time < target_frame_time * 0.8
            then w\<lparr>quality_level := min 1.0 (quality_level w + 0.05)\<rparr>
            else w)
      else w)"

definition adjust_for_cpu :: "real \<Rightarrow> mystify_widget \<Rightarrow> mystify_widget" where
  "adjust_for_cpu cpu w =
     (if cpu > cpu_threshold then
        (let w1 = w\<lparr>quality_level := max 0.3 (quality_level w - 0.1)\<rparr>
         in if cpu > 70 then w1\<lparr>frame_skip_ratio := min 4 (frame_skip_ratio w1 + 1)\<rparr> else w1)
      else w)"

definition adjust_for_memory :: "real \<Rightarrow> mystify_widget \<Rightarrow> mystify_widget" where
  "adjust_for_memory mem w =
     (if mem > memory_threshold then
        (let w1 = w\<lparr>quality_level := max 0.3 (quality_level w - 0.1)\<rparr>
         in if mem > 85
            then w1\<lparr>trail_length := max 10 (py_int (real_of_int (trail_length w1) * 0.8))\<rparr>
            else w1)
      else w)"

definition adaptive_performance_adjustment ::
  "mystify_widget \<Rightarrow> psutil_sample option \<Rightarrow> mystify_widget" where
  "adaptive_performance_adjustment w sample =
     (case sample of
        None \<Rightarrow> w
      | Some s \<Rightarrow>
          (let cpu = (case cpu_percent s of
                        CpuNumber c \<Rightarrow> c
                      | CpuList cs \<Rightarrow> (if cs \<noteq> [] then sum_list cs / real (length cs) else 0.0)
                      | CpuOther \<Rightarrow> 0.0)
           in adjust_for_memory (memory_percent s) (adjust_for_cpu cpu (adjust_for_frame_time w))))"

text \<open>\<^verbatim>\<open>check_emergency_cpu_throttle\<close> of the curve widget.\<close>

definition mystify_check_emergency_cpu_throttle ::
  "mystify_widget \<Rightarrow> cpu_reading option \<Rightarrow> mystify_widget" where
  "mystify_check_emergency_cpu_throttle w reading =
     (case (case reading of
              None \<Rightarrow> None
            | Some (CpuNumber c) \<Rightarrow> Some c
            | Some (CpuList cs) \<Rightarrow> Some (if cs \<noteq> [] then sum_list cs / real (length cs) else 0.0)
            | Some CpuOther \<Rightarrow> None) of
        None \<Rightarrow> w
      | Some cpu \<Rightarrow>
          (if cpu > emergency_cpu_threshold then
             (if \<not> is_emergency_throttled w
              then w\<lparr>is_emergency_throttled := True, timer_interval := 1000\<rparr> else w)
           else
             (if is_emergency_throttled w then
                (let fps0 = dict_get (fps (settings w)) (dict_get (target_fps (settings w)) 30);
                     fps1 = (if fps0 = 0 then 60 else fps0)
                 in w\<lparr>is_emergency_throttled := False, timer_interval := 1000 div fps1\<rparr>)
              else w)))"

section \<open>DriftOverlay: \<^verbatim>\<open>calculate_drift_position\<close>\<close>

text \<open>
  The method has the same text in both widgets. The record holds the attributes it
  reads (\<open>stats_drift\<close> is the settings key); the screen size is what
  \<^verbatim>\<open>self.width()\<close> and \<^verbatim>\<open>self.height()\<close> return. A cycle duration of zero makes the
  float modulo raise.
\<close>

record drift_overlay =
  stats_drift :: "bool option"
  stats_drift_start_time :: real
  drift_cycle_duration :: int
  drift_margin :: int

definition calculate_drift_position ::
  "drift_overlay \<Rightarrow> real \<Rightarrow> int \<Rightarrow> int \<Rightarrow> py_error + (int \<times> int)" where
  "calculate_drift_position d current_time screen_width screen_height =
     (if \<not> dict_get (stats_drift d) True then Inr (10, 30)
      else if drift_cycle_duration d = 0 then Inl ZeroDivisionError
      else
        (let elapsed = current_time - stats_drift_start_time d;
             dur = real_of_int (drift_cycle_duration d);
             margin = real_of_int (drift_margin d);
             sw = real_of_int screen_width;
             sh = real_of_int screen_height;
             cycle_progress = py_fmod elapsed dur / dur
         in if cycle_progress < 0.25 then
              Inr (py_int (margin + cycle_progress * 4 * (sw - 2 * margin - 300)), py_int margin)
            else if cycle_progress < 0.5 then
              Inr (py_int (sw - margin - 300),
                   py_int (margin + (cycle_progress - 0.25) * 4 * (sh - 2 * margin - 80)))
            else if cycle_progress < 0.75 then
              Inr (py_int (sw - margin - 300 - (cycle_progress - 0.5) * 4 * (sw - 2 * margin - 300)),
                   py_int (sh - margin - 80))
            else
              Inr (py_int margin,
                   py_int (sh - margin - 80 - (cycle_progress - 0.75) * 4 * (sh - 2 * margin - 80)))))"

section \<open>The rain engine: \<^verbatim>\<open>MatrixWidget\<close>\<close>

text \<open>A character is its code point. The column record holds the attributes of
  \<^verbatim>\<open>MatrixColumn\<close> that the widget's methods read (\<open>column_x\<close> is \<^verbatim>\<open>x\<close>).\<close>

type_synonym glyph = nat

record matrix_column =
  column_x :: int
  characters :: "glyph list"
  char_positions :: "real list"
  char_ages :: "int list"
  head_position :: real

datatype qcolor = Rgba int int int int | Hsv int int int

text \<open>The widget's settings dictionary always holds the keys \<^verbatim>\<open>color\<close>,
  \<^verbatim>\<open>rainbow\<close> and \<^verbatim>\<open>target_fps\<close>: \<^verbatim>\<open>__init__\<close> sets them and
  \<^verbatim>\<open>update_settings\<close> only adds or replaces keys (\<open>color_name\<close> is the value of
  \<^verbatim>\<open>color\<close>). The fields \<open>rain_throttled\<close> and \<open>rain_timer_interval\<close> are
  \<^verbatim>\<open>is_emergency_throttled\<close> and the interval of \<^verbatim>\<open>self.timer\<close>.\<close>

record matrix_widget =
  color_name :: string
  rainbow :: bool
  rain_target_fps :: int
  columns :: "matrix_column list"
  primary_color :: qcolor
  head_color :: qcolor
  fade_colors :: "qcolor list"
  rain_throttled :: bool
  rain_timer_interval :: int

text \<open>\<^verbatim>\<open>setup_colors\<close>: the primary colour by name (green when the name is unknown),
  a white head and 20 fading copies of the primary colour.\<close>

definition base_colors :: "string \<Rightarrow> qcolor option" where
  "base_colors = map_of
     [(''green'', Rgba 0 255 0 255), (''red'', Rgba 255 0 0 255), (''blue'', Rgba 0 0 255 255),
      (''cyan'', Rgba 0 255 255 255), (''magenta'', Rgba 255 0 255 255),
      (''yellow'', Rgba 255 255 0 255), (''white'', Rgba 255 255 255 255)]"

fun set_alpha :: "int \<Rightarrow> qcolor \<Rightarrow> qcolor" where
  "set_alpha a (Rgba r g b old) = Rgba r g b a"
| "set_alpha a (Hsv h s v) = Hsv h s v"

definition setup_colors :: "matrix_widget \<Rightarrow> matrix_widget" where
  "setup_colors w =
     (let primary = dict_get (base_colors (color_name w)) (Rgba 0 255 0 255)
      in w\<lparr>primary_color := primary, head_color := Rgba 255 255 255 255,
            fade_colors := map (\<lambda>i. set_alpha (max 50 (255 - int i * 12)) primary) [0..<20]\<rparr>)"

text \<open>\<^verbatim>\<open>check_emergency_cpu_throttle\<close> of the rain widget: a reading that is not a
  number is ignored.\<close>

definition sidekick_check_emergency_cpu_throttle ::
  "matrix_widget \<Rightarrow> cpu_reading option \<Rightarrow> matrix_widget" where
  "sidekick_check_emergency_cpu_throttle w reading =
     (case reading of
        Some (CpuNumber cpu) \<Rightarrow>
          (if cpu > emergency_cpu_threshold then
             (if \<not> rain_throttled w
              then w\<lparr>rain_throttled := True, rain_timer_interval := 1000\<rparr> else w)
           else
             (if rain_throttled w then
                (let interval = (if rain_target_fps w > 0
                                 then py_int (1000 / real_of_int (rain_target_fps w)) else 1)
                 in w\<lparr>rain_throttled := False, rain_timer_interval := interval\<rparr>)
              else w))
      | _ \<Rightarrow> w)"

subsection \<open>\<^verbatim>\<open>draw_column\<close>\<close>

text \<open>One \<^verbatim>\<open>painter.setPen(color)\<close> followed by
  \<^verbatim>\<open>painter.drawText(int(column.x), int(pos), char)\<close>.\<close>

record draw_text =
  pen_color :: qcolor
  draw_x :: int
  draw_y :: int
  drawn_char :: glyph

text \<open>The colour of the character at index \<open>i\<close>; \<^verbatim>\<open>self.fade_colors[fade_index]\<close>
  raises on an empty list.\<close>

definition char_color :: "matrix_widget \<Rightarrow> real \<Rightarrow> nat \<Rightarrow> py_error + qcolor" where
  "char_color w base_hue i =
     (if i = 0 then
        (if rainbow w then Inr (Hsv (py_int base_hue) 255 255) else Inr (head_color w))
      else if rainbow w then
        Inr (Hsv (py_int (py_fmod (base_hue + real i * 30) 360)) 255 (max 30 (255 - int i * 25)))
      else if fade_colors w = [] then Inl IndexError
      else Inr (fade_colors w ! min i (length (fade_colors w) - 1)))"

text \<open>
  What the loop does with each character it visits, in order: \<open>Skip\<close> is the
  \<^verbatim>\<open>continue\<close> of an off-screen character, \<open>Stop\<close> the \<^verbatim>\<open>break\<close> at the trail
  limit, \<open>Draw\<close> a painted character and \<open>Raise\<close> an exception; after \<open>Stop\<close>
  and \<open>Raise\<close> no further character is visited.
\<close>

datatype outcome = Skip | Stop | Draw draw_text | Raise py_error

fun draw_chars ::
  "matrix_widget \<Rightarrow> int \<Rightarrow> real \<Rightarrow> int \<Rightarrow> nat \<Rightarrow> (glyph \<times> real \<times> int) list \<Rightarrow> outcome list" where
  "draw_chars w cx base_hue screen_height i [] = []"
| "draw_chars w cx base_hue screen_height i ((char, pos, age) # rest) =
     (if pos < - 50 \<or> pos > real_of_int (screen_height + 50)
      then Skip # draw_chars w cx base_hue screen_height (Suc i) rest
      else if i > 10 then [Stop]
      else (case char_color w base_hue i of
              Inl e \<Rightarrow> [Raise e]
            | Inr color \<Rightarrow>
                Draw \<lparr>pen_color = color, draw_x = cx, draw_y = py_int pos, drawn_char = char\<rparr>
                  # draw_chars w cx base_hue screen_height (Suc i) rest))"

text \<open>\<open>screen_height\<close> is \<^verbatim>\<open>self.height()\<close>, \<open>current_time\<close> is \<^verbatim>\<open>time.time()\<close>.\<close>

definition draw_column :: "matrix_widget \<Rightarrow> matrix_column \<Rightarrow> int \<Rightarrow> real \<Rightarrow> outcome list" where
  "draw_column w column screen_height current_time =
     draw_chars w (column_x column)
       (py_fmod (current_time * 100 + real_of_int (column_x column)) 360) screen_height 0
       (zip (characters column) (zip (char_positions column) (char_ages column)))"

text \<open>The painter calls of a column, in order.\<close>

definition painted :: "outcome list \<Rightarrow> draw_text list" where
  "painted outs = concat (map (\<lambda>out. case out of Draw d \<Rightarrow> [d] | _ \<Rightarrow> []) outs)"

section \<open>Runs of the periodic checks\<close>

text \<open>The states of a widget along a sequence of numeric CPU samples, one emergency
  check per sample; the first state is the one before the first check.\<close>

fun mystify_throttle_run :: "mystify_widget \<Rightarrow> real list \<Rightarrow> mystify_widget list" where
  "mystify_throttle_run w [] = [w]"
| "mystify_throttle_run w (c # cs) =
     w # mystify_throttle_run (mystify_check_emergency_cpu_throttle w (Some (CpuNumber c))) cs"

fun sidekick_throttle_run :: "matrix_widget \<Rightarrow> real list \<Rightarrow> matrix_widget list" where
  "sidekick_throttle_run w [] = [w]"
| "sidekick_throttle_run w (c # cs) =
     w # sidekick_throttle_run (sidekick_check_emergency_cpu_throttle w (Some (CpuNumber c))) cs"

text \<open>Transitions of a flag along a run: into the flagged state and out of it.\<close>

fun entries :: "bool list \<Rightarrow> nat" where
  "entries (a # b # bs) = (if \<not> a \<and> b then 1 else 0) + entries (b # bs)"
| "entries bs = 0"

fun exits :: "bool list \<Rightarrow> nat" where
  "exits (a # b # bs) = (if a \<and> \<not> b then 1 else 0) + exits (b # bs)"
| "exits bs = 0"

text \<open>The maximal runs of consecutive samples above 90 in a sample sequence, and the
  samples at or below 90 that directly follow a sample above 90; \<open>inside\<close> tells
  whether the sample before the sequence was above 90.\<close>

fun hot_runs :: "bool \<Rightarrow> real list \<Rightarrow> nat" where
  "hot_runs inside [] = 0"
| "hot_runs inside (c # cs) =
     (if c > 90 then (if inside then 0 else 1) + hot_runs True cs else hot_runs False cs)"

fun cool_returns :: "bool \<Rightarrow> real list \<Rightarrow> nat" where
  "cool_returns inside [] = 0"
| "cool_returns inside (c # cs) =
     (if c > 90 then cool_returns True cs else (if inside then 1 else 0) + cool_returns False cs)"

text \<open>The operations on a curve widget as far as the quality level is concerned: a
  performance check, the per-frame optimisations, and anything else, which may replace
  every attribute but the quality level.\<close>

datatype governor_event =
  PerformanceCheck "psutil_sample option" | Optimise real | Elsewhere mystify_widget

fun run_governor :: "mystify_widget \<Rightarrow> governor_event list \<Rightarrow> mystify_widget" where
  "run_governor w [] = w"
| "run_governor w (PerformanceCheck sample # es) =
     run_governor (adaptive_performance_adjustment w sample) es"
| "run_governor w (Optimise current_time # es) =
     run_governor (fst (apply_performance_optimizations w current_time)) es"
| "run_governor w (Elsewhere w1 # es) =
     run_governor (w1\<lparr>quality_level := quality_level w\<rparr>) es"

text \<open>\<open>governed_fields w w1\<close>: the state \<open>w1\<close> differs from \<open>w\<close> at most in the
  quality level, the frame-skip ratio and the trail length.\<close>

definition governed_fields :: "mystify_widget \<Rightarrow> mystify_widget \<Rightarrow> bool" where
  "governed_fields w w1 =
     (w1 = w\<lparr>quality_level := quality_level w1, frame_skip_ratio := frame_skip_ratio w1,
            trail_length := trail_length w1\<rparr>)"

text \<open>A hue in the range of the data model, \<open>[0, 360)\<close>.\<close>

definition hue_ok :: "shape \<Rightarrow> bool" where
  "hue_ok s = (0 \<le> color_hue s \<and> color_hue s < 360)"

section \<open>Example states\<close>

definition demo_settings :: mystify_settings where
  "demo_settings =
     \<lparr>mystify_shapes = Some 3, mystify_trail_length = Some 50, mystify_complexity = Some 6,
      mystify_speed = Some 2, fps = None, target_fps = Some 15,
      power_saving_mode = None, energy_efficient = None\<rparr>"

definition demo_shape :: shape where
  "demo_shape =
     \<lparr>control_points = [(100, 100), (400, 300), (200, 500)],
      velocities = [(1, - 1), (- 2, 1), (1, 1.5)],
      control_velocities = [(0, 0), (0, 0), (0, 0)],
      color_hue = 120, color_shift = 1, size_factor = 0.2, curve_tension = 0.5\<rparr>"

text \<open>A curve widget with one shape, as it is before its first frame.\<close>

definition demo_widget :: mystify_widget where
  "demo_widget =
     \<lparr>settings = demo_settings\<lparr>mystify_shapes := Some 1\<rparr>, num_shapes = 1, trail_length = 50, shape_complexity = 6,
      speed = 2, shapes = [demo_shape], shape_trails = [[]], timer_interval = 66,
      frame_count = 0, frame_times = [], is_emergency_throttled = False,
      quality_level = 1, frame_skip_ratio = 1, last_activity_check = None\<rparr>"

definition demo_column :: matrix_column where
  "demo_column =
     \<lparr>column_x = 40, characters = [65, 66, 67], char_positions = [120, 100, - 80],
      char_ages = [0, 1, 2], head_position = 120\<rparr>"

text \<open>A rain widget with one column, its colours set up for green.\<close>

definition demo_matrix :: matrix_widget where
  "demo_matrix = setup_colors
     \<lparr>color_name = ''green'', rainbow = False, rain_target_fps = 10, columns = [demo_column],
      primary_color = Rgba 0 255 0 255, head_color = Rgba 255 255 255 255, fade_colors = [],
      rain_throttled = False, rain_timer_interval = 100\<rparr>"

definition demo_monitor :: usb_monitor where
  "demo_monitor = \<lparr>usb_interrupt_baseline = None, last_usb_check = 0, screensaver_start_time = 0\<rparr>"

definition demo_overlay :: drift_overlay where
  "demo_overlay =
     \<lparr>stats_drift = Some True, stats_drift_start_time = 1000, drift_cycle_duration = 480,
      drift_margin = 50\<rparr>"

definition demo_table :: string where
  "demo_table = ''  1:   12  34  usb1 xhci\<newline> 17: 5 6 i8042 keyboard\<newline>  3: 100 timer''"

text \<open>The curve of the example shape, and the example widget after its trail has filled
  up at full quality.\<close>

definition demo_curve :: path where
  "demo_curve = create_smooth_curve (control_points demo_shape) (curve_tension demo_shape)"

definition demo_widget_full_trail :: mystify_widget where
  "demo_widget_full_trail = demo_widget\<lparr>shape_trails := [replicate 50 demo_curve]\<rparr>"

section \<open>ActivitySignal\<close>

lemma demo_table_total: "total_interrupts demo_table = 57"
  unfolding demo_table_def by code_simp

text \<open>
  C2, as the code has it. A poll that reads the interrupt table while the baseline is
  unset stores the table's total as the baseline and emits no exit signal: always in the
  rain widget, and in the curve widget once its 10 s start-up grace period is over. A
  poll of the curve widget inside the grace period changes nothing, whatever the source,
  so the baseline stays unset; so does a poll of either widget that cannot read the
  source. Whatever the source and the time, a poll with the baseline unset emits no exit
  signal.
\<close>

theorem first_poll_sets_baseline:
  assumes "usb_interrupt_baseline m = None"
  shows "sidekick_check_usb_activity m now (Some content)
           = (m\<lparr>usb_interrupt_baseline := Some (total_interrupts content)\<rparr>, False)
       \<and> (10 \<le> now - screensaver_start_time m \<longrightarrow>
            mystify_check_usb_activity m now (Some content)
              = (m\<lparr>usb_interrupt_baseline := Some (total_interrupts content)\<rparr>, False))
       \<and> (early - screensaver_start_time m < 10 \<longrightarrow>
            mystify_check_usb_activity m early source = (m, False)
            \<and> usb_interrupt_baseline (fst (mystify_check_usb_activity m early source)) = None)
       \<and> mystify_check_usb_activity m now None = (m, False)
       \<and> usb_interrupt_baseline (fst (mystify_check_usb_activity m now None)) = None
       \<and> usb_interrupt_baseline (fst (sidekick_check_usb_activity m now None)) = None
       \<and> \<not> snd (sidekick_check_usb_activity m now source)
       \<and> \<not> snd (mystify_check_usb_activity m now source)"
  using assms
  by (cases source) (simp_all add: sidekick_check_usb_activity_def mystify_check_usb_activity_def)

theorem first_poll_sets_baseline_witness:
  "usb_interrupt_baseline demo_monitor = None
   \<and> sidekick_check_usb_activity demo_monitor 12 (Some demo_table)
        = (demo_monitor\<lparr>usb_interrupt_baseline := Some 57\<rparr>, False)
   \<and> 10 \<le> 12 - screensaver_start_time demo_monitor
   \<and> mystify_check_usb_activity demo_monitor 12 (Some demo_table)
        = (demo_monitor\<lparr>usb_interrupt_baseline := Some 57\<rparr>, False)
   \<and> 2 - screensaver_start_time demo_monitor < 10
   \<and> mystify_check_usb_activity demo_monitor 2 (Some demo_table) = (demo_monitor, False)
   \<and> usb_interrupt_baseline (fst (mystify_check_usb_activity demo_monitor 2 (Some demo_table))) = None
   \<and> mystify_check_usb_activity demo_monitor 12 None = (demo_monitor, False)
   \<and> usb_interrupt_baseline (fst (sidekick_check_usb_activity demo_monitor 12 None)) = None
   \<and> \<not> snd (sidekick_check_usb_activity demo_monitor 12 (Some demo_table))
   \<and> \<not> snd (mystify_check_usb_activity demo_monitor 12 (Some demo_table))"
proof -
  have unset: "usb_interrupt_baseline demo_monitor = None"
    by (simp add: demo_monitor_def)
  have late: "10 \<le> 12 - screensaver_start_time demo_monitor"
    and early: "2 - screensaver_start_time demo_monitor < 10"
    by (simp_all add: demo_monitor_def)
  from first_poll_sets_baseline [OF unset, of 12 demo_table 2 "Some demo_table"] unset late early
  show ?thesis by (simp add: demo_table_total)
qed

text \<open>
  C2, as stated, fails in the curve widget: its first poll comes 2 s after construction,
  inside the grace period, and returns before the table is read, so the baseline is still
  unset after it.
\<close>

theorem first_poll_in_grace_period_counterexample:
  "usb_interrupt_baseline (fst (mystify_check_usb_activity demo_monitor 2 (Some demo_table)))
     \<noteq> Some (total_interrupts demo_table)"
  by (simp add: mystify_check_usb_activity_def demo_monitor_def)

text \<open>
  C3. With an established baseline \<open>B\<close>, a poll that sums the total \<open>T\<close> of the table
  emits the exit signal exactly when \<open>T - B > 0\<close> in the rain widget and exactly when
  \<open>T - B > 50\<close> in the curve widget (whose polls sum a total only after the grace
  period); in both, the baseline is \<open>T\<close> after the poll.
\<close>

theorem poll_reports_iff_above_threshold:
  assumes "usb_interrupt_baseline m = Some B"
  shows "(snd (sidekick_check_usb_activity m now (Some content)) \<longleftrightarrow> total_interrupts content - B > 0)
       \<and> usb_interrupt_baseline (fst (sidekick_check_usb_activity m now (Some content)))
           = Some (total_interrupts content)
       \<and> (10 \<le> now - screensaver_start_time m \<longrightarrow>
            (snd (mystify_check_usb_activity m now (Some content)) \<longleftrightarrow> total_interrupts content - B > 50)
            \<and> usb_interrupt_baseline (fst (mystify_check_usb_activity m now (Some content)))
                = Some (total_interrupts content))"
  using assms
  by (simp add: sidekick_check_usb_activity_def mystify_check_usb_activity_def)

theorem poll_reports_iff_above_threshold_witness:
  "usb_interrupt_baseline (demo_monitor\<lparr>usb_interrupt_baseline := Some 5\<rparr>) = Some 5
   \<and> snd (sidekick_check_usb_activity (demo_monitor\<lparr>usb_interrupt_baseline := Some 5\<rparr>) 12 (Some demo_table))
   \<and> usb_interrupt_baseline
        (fst (sidekick_check_usb_activity (demo_monitor\<lparr>usb_interrupt_baseline := Some 5\<rparr>) 12 (Some demo_table)))
        = Some 57
   \<and> 10 \<le> 12 - screensaver_start_time (demo_monitor\<lparr>usb_interrupt_baseline := Some 5\<rparr>)
   \<and> snd (mystify_check_usb_activity (demo_monitor\<lparr>usb_interrupt_baseline := Some 5\<rparr>) 12 (Some demo_table))
   \<and> usb_interrupt_baseline
        (fst (mystify_check_usb_activity (demo_monitor\<lparr>usb_interrupt_baseline := Some 5\<rparr>) 12 (Some demo_table)))
        = Some 57"
proof -
  have established: "usb_interrupt_baseline (demo_monitor\<lparr>usb_interrupt_baseline := Some 5\<rparr>) = Some 5"
    by simp
  have late: "10 \<le> 12 - screensaver_start_time (demo_monitor\<lparr>usb_interrupt_baseline := Some 5\<rparr>)"
    by (simp add: demo_monitor_def)
  from poll_reports_iff_above_threshold [OF established, of 12 demo_table] established late
  show ?thesis by (simp add: demo_table_total)
qed

section \<open>Emergency throttle\<close>

lemma mystify_check_flag:
  "is_emergency_throttled (mystify_check_emergency_cpu_throttle w (Some (CpuNumber c))) = (c > 90)"
  by (simp add: mystify_check_emergency_cpu_throttle_def emergency_cpu_threshold_def Let_def)

lemma mystify_check_interval:
  "is_emergency_throttled w \<longrightarrow> timer_interval w = 1000 \<Longrightarrow>
   is_emergency_throttled (mystify_check_emergency_cpu_throttle w (Some (CpuNumber c))) \<longrightarrow>
   timer_interval (mystify_check_emergency_cpu_throttle w (Some (CpuNumber c))) = 1000"
  by (simp add: mystify_check_emergency_cpu_throttle_def emergency_cpu_threshold_def Let_def)

lemma sidekick_check_flag:
  "rain_throttled (sidekick_check_emergency_cpu_throttle w (Some (CpuNumber c))) = (c > 90)"
  by (simp add: sidekick_check_emergency_cpu_throttle_def emergency_cpu_threshold_def)

lemma sidekick_check_interval:
  "rain_throttled w \<longrightarrow> rain_timer_interval w = 1000 \<Longrightarrow>
   rain_throttled (sidekick_check_emergency_cpu_throttle w (Some (CpuNumber c))) \<longrightarrow>
   rain_timer_interval (sidekick_check_emergency_cpu_throttle w (Some (CpuNumber c))) = 1000"
  by (simp add: sidekick_check_emergency_cpu_throttle_def emergency_cpu_threshold_def)

lemma entries_cons_mystify:
  "entries (a # map f (mystify_throttle_run w cs))
     = (if \<not> a \<and> f w then 1 else 0) + entries (map f (mystify_throttle_run w cs))"
  by (cases cs) simp_all

lemma exits_cons_mystify:
  "exits (a # map f (mystify_throttle_run w cs))
     = (if a \<and> \<not> f w then 1 else 0) + exits (map f (mystify_throttle_run w cs))"
  by (cases cs) simp_all

lemma entries_cons_sidekick:
  "entries (a # map f (sidekick_throttle_run w cs))
     = (if \<not> a \<and> f w then 1 else 0) + entries (map f (sidekick_throttle_run w cs))"
  by (cases cs) simp_all

lemma exits_cons_sidekick:
  "exits (a # map f (sidekick_throttle_run w cs))
     = (if a \<and> \<not> f w then 1 else 0) + exits (map f (sidekick_throttle_run w cs))"
  by (cases cs) simp_all

text \<open>After a numeric sample the flag tells whether that sample was above 90, so the
  flag rises once per maximal run of such samples and falls once at the sample that
  ends the run.\<close>

lemma mystify_run_entries:
  "entries (map is_emergency_throttled (mystify_throttle_run w cs))
     = hot_runs (is_emergency_throttled w) cs"
  by (induction cs arbitrary: w) (simp_all add: entries_cons_mystify mystify_check_flag)

lemma mystify_run_exits:
  "exits (map is_emergency_throttled (mystify_throttle_run w cs))
     = cool_returns (is_emergency_throttled w) cs"
  by (induction cs arbitrary: w) (simp_all add: exits_cons_mystify mystify_check_flag)

lemma mystify_run_interval:
  "is_emergency_throttled w \<longrightarrow> timer_interval w = 1000 \<Longrightarrow>
   \<forall>s \<in> set (mystify_throttle_run w cs). is_emergency_throttled s \<longrightarrow> timer_interval s = 1000"
proof (induction cs arbitrary: w)
  case Nil
  then show ?case by simp
next
  case (Cons c cs)
  from Cons.IH [OF mystify_check_interval [OF Cons.prems]] Cons.prems
  show ?case by simp
qed

lemma sidekick_run_entries:
  "entries (map rain_throttled (sidekick_throttle_run w cs)) = hot_runs (rain_throttled w) cs"
  by (induction cs arbitrary: w) (simp_all add: entries_cons_sidekick sidekick_check_flag)

lemma sidekick_run_exits:
  "exits (map rain_throttled (sidekick_throttle_run w cs)) = cool_returns (rain_throttled w) cs"
  by (induction cs arbitrary: w) (simp_all add: exits_cons_sidekick sidekick_check_flag)

lemma sidekick_run_interval:
  "rain_throttled w \<longrightarrow> rain_timer_interval w = 1000 \<Longrightarrow>
   \<forall>s \<in> set (sidekick_throttle_run w cs). rain_throttled s \<longrightarrow> rain_timer_interval s = 1000"
proof (induction cs arbitrary: w)
  case Nil
  then show ?case by simp
next
  case (Cons c cs)
  from Cons.IH [OF sidekick_check_interval [OF Cons.prems]] Cons.prems
  show ?case by simp
qed

text \<open>
  C4. Start either widget unthrottled, as it is constructed, and feed the emergency check
  any sequence of numeric CPU samples. Along the run the throttled flag goes up exactly
  once per maximal run of consecutive samples above 90 and goes down exactly once per
  sample at or below 90 that follows a sample above 90, and in every state of the run in
  which the widget is throttled the timer interval is 1000 ms, whatever the settings say
  about the frame rate.
\<close>

theorem emergency_throttle_transitions:
  assumes "\<not> is_emergency_throttled w" and "\<not> rain_throttled r"
  shows "entries (map is_emergency_throttled (mystify_throttle_run w cs)) = hot_runs False cs
       \<and> exits (map is_emergency_throttled (mystify_throttle_run w cs)) = cool_returns False cs
       \<and> (\<forall>s \<in> set (mystify_throttle_run w cs). is_emergency_throttled s \<longrightarrow> timer_interval s = 1000)
       \<and> entries (map rain_throttled (sidekick_throttle_run r cs)) = hot_runs False cs
       \<and> exits (map rain_throttled (sidekick_throttle_run r cs)) = cool_returns False cs
       \<and> (\<forall>s \<in> set (sidekick_throttle_run r cs). rain_throttled s \<longrightarrow> rain_timer_interval s = 1000)"
proof -
  have "is_emergency_throttled w \<longrightarrow> timer_interval w = 1000"
    using assms(1) by simp
  moreover have "rain_throttled r \<longrightarrow> rain_timer_interval r = 1000"
    using assms(2) by simp
  ultimately show ?thesis
    using assms mystify_run_entries [of w cs] mystify_run_exits [of w cs]
      mystify_run_interval [of w cs] sidekick_run_entries [of r cs]
      sidekick_run_exits [of r cs] sidekick_run_interval [of r cs]
    by simp
qed

lemma demo_mystify_run:
  "map (\<lambda>s. (is_emergency_throttled s, timer_interval s))
       (mystify_throttle_run demo_widget [50, 95, 99, 91, 90, 20, 95, 30])
     = [(False, 66), (False, 66), (True, 1000), (True, 1000), (True, 1000), (False, 66),
        (False, 66), (True, 1000), (False, 66)]"
  by (simp add: mystify_check_emergency_cpu_throttle_def emergency_cpu_threshold_def Let_def
      demo_widget_def demo_settings_def dict_get_def)

lemma demo_sidekick_run:
  "map (\<lambda>s. (rain_throttled s, rain_timer_interval s))
       (sidekick_throttle_run demo_matrix [50, 95, 99, 91, 90, 20, 95, 30])
     = [(False, 100), (False, 100), (True, 1000), (True, 1000), (True, 1000), (False, 100),
        (False, 100), (True, 1000), (False, 100)]"
  by (simp add: sidekick_check_emergency_cpu_throttle_def emergency_cpu_threshold_def
      demo_matrix_def setup_colors_def Let_def py_int_def)

theorem emergency_throttle_transitions_witness:
  "\<not> is_emergency_throttled demo_widget \<and> \<not> rain_throttled demo_matrix
   \<and> entries (map is_emergency_throttled (mystify_throttle_run demo_widget [50, 95, 99, 91, 90, 20, 95, 30])) = 2
   \<and> exits (map is_emergency_throttled (mystify_throttle_run demo_widget [50, 95, 99, 91, 90, 20, 95, 30])) = 2
   \<and> entries (map rain_throttled (sidekick_throttle_run demo_matrix [50, 95, 99, 91, 90, 20, 95, 30])) = 2
   \<and> exits (map rain_throttled (sidekick_throttle_run demo_matrix [50, 95, 99, 91, 90, 20, 95, 30])) = 2
   \<and> map timer_interval (filter is_emergency_throttled
        (mystify_throttle_run demo_widget [50, 95, 99, 91, 90, 20, 95, 30])) = [1000, 1000, 1000, 1000]
   \<and> map rain_timer_interval (filter rain_throttled
        (sidekick_throttle_run demo_matrix [50, 95, 99, 91, 90, 20, 95, 30])) = [1000, 1000, 1000, 1000]"
proof -
  have w: "\<not> is_emergency_throttled demo_widget" by (simp add: demo_widget_def)
  have r: "\<not> rain_throttled demo_matrix"
    by (simp add: demo_matrix_def setup_colors_def Let_def)
  have hot: "hot_runs False [50, 95, 99, 91, 90, 20, 95, 30] = 2"
    and cool: "cool_returns False [50, 95, 99, 91, 90, 20, 95, 30] = 2"
    by simp_all
  note t = emergency_throttle_transitions [OF w r, of "[50, 95, 99, 91, 90, 20, 95, 30]"]
  have m: "map timer_interval (filter is_emergency_throttled
        (mystify_throttle_run demo_widget [50, 95, 99, 91, 90, 20, 95, 30])) = [1000, 1000, 1000, 1000]"
    using demo_mystify_run by (simp add: mystify_check_emergency_cpu_throttle_def
        emergency_cpu_threshold_def Let_def demo_widget_def demo_settings_def dict_get_def)
  have s: "map rain_timer_interval (filter rain_throttled
        (sidekick_throttle_run demo_matrix [50, 95, 99, 91, 90, 20, 95, 30])) = [1000, 1000, 1000, 1000]"
    by (simp add: sidekick_check_emergency_cpu_throttle_def emergency_cpu_threshold_def
        demo_matrix_def setup_colors_def Let_def py_int_def)
  from t w r hot cool m s show ?thesis by simp
qed

section \<open>Quality level\<close>

lemma frame_time_quality:
  "0.3 \<le> quality_level w \<Longrightarrow> quality_level w \<le> 1 \<Longrightarrow>
   0.3 \<le> quality_level (adjust_for_frame_time w) \<and> quality_level (adjust_for_frame_time w) \<le> 1"
  by (auto simp: adjust_for_frame_time_def Let_def max_def min_def)

lemma cpu_quality:
  "0.3 \<le> quality_level w \<Longrightarrow> quality_level w \<le> 1 \<Longrightarrow>
   0.3 \<le> quality_level (adjust_for_cpu cpu w) \<and> quality_level (adjust_for_cpu cpu w) \<le> 1"
  by (auto simp: adjust_for_cpu_def Let_def max_def min_def)

lemma memory_quality:
  "0.3 \<le> quality_level w \<Longrightarrow> quality_level w \<le> 1 \<Longrightarrow>
   0.3 \<le> quality_level (adjust_for_memory mem w) \<and> quality_level (adjust_for_memory mem w) \<le> 1"
  by (auto simp: adjust_for_memory_def Let_def max_def min_def)

text \<open>One performance check keeps the quality level in range, whichever of its branches
  run.\<close>

lemma adjustment_quality:
  assumes "0.3 \<le> quality_level w" and "quality_level w \<le> 1"
  shows "0.3 \<le> quality_level (adaptive_performance_adjustment w sample)
       \<and> quality_level (adaptive_performance_adjustment w sample) \<le> 1"
proof (cases sample)
  case None
  with assms show ?thesis by (simp add: adaptive_performance_adjustment_def)
next
  case (Some s)
  have "0.3 \<le> quality_level (adjust_for_memory m (adjust_for_cpu c (adjust_for_frame_time w)))
      \<and> quality_level (adjust_for_memory m (adjust_for_cpu c (adjust_for_frame_time w))) \<le> 1" for m c
    using frame_time_quality [OF assms] cpu_quality memory_quality by blast
  with Some show ?thesis by (simp add: adaptive_performance_adjustment_def Let_def)
qed

text \<open>So do the power-saving and energy-efficient clamps.\<close>

lemma optimizations_quality:
  "0.3 \<le> quality_level w \<Longrightarrow> quality_level w \<le> 1 \<Longrightarrow>
   0.3 \<le> quality_level (fst (apply_performance_optimizations w t))
   \<and> quality_level (fst (apply_performance_optimizations w t)) \<le> 1"
  by (auto simp: apply_performance_optimizations_def Let_def max_def min_def split: option.splits)

lemma run_governor_quality:
  "0.3 \<le> quality_level w \<Longrightarrow> quality_level w \<le> 1 \<Longrightarrow>
   0.3 \<le> quality_level (run_governor w es) \<and> quality_level (run_governor w es) \<le> 1"
proof (induction w es rule: run_governor.induct)
  case (1 w)
  then show ?case by simp
next
  case (2 w sample es)
  then show ?case using adjustment_quality [of w sample] by simp
next
  case (3 w current_time es)
  then show ?case using optimizations_quality [of w current_time] by simp
next
  case (4 w w1 es)
  then show ?case by simp
qed

text \<open>The constructor sets the quality level to 1.\<close>

lemma init_quality:
  "mystify_widget_init st width height g = Inr (w, g1) \<Longrightarrow> quality_level w = 1"
  by (auto simp: mystify_widget_init_def init_shapes_def Let_def split: sum.splits prod.splits)

text \<open>
  C5. From the initial quality level 1, after any sequence of performance checks (with
  any telemetry sample, frame-time history and other state) and per-frame optimisations
  (power-saving and energy-efficient clamps), interleaved with any operations that leave
  the quality level alone, the quality level is at least 0.3 and at most 1.
\<close>

theorem quality_level_bounds:
  assumes "quality_level w = 1"
  shows "0.3 \<le> quality_level (run_governor w es) \<and> quality_level (run_governor w es) \<le> 1"
  using assms run_governor_quality [of w es] by simp

theorem quality_level_bounds_witness:
  "quality_level demo_widget = 1
   \<and> 0.3 \<le> quality_level (run_governor demo_widget
        [PerformanceCheck (Some \<lparr>cpu_percent = CpuNumber 95, memory_percent = 90\<rparr>), Optimise 100,
         Elsewhere (demo_widget\<lparr>frame_times := [0.2]\<rparr>), PerformanceCheck None,
         PerformanceCheck (Some \<lparr>cpu_percent = CpuList [10, 20], memory_percent = 40\<rparr>)])
   \<and> quality_level (run_governor demo_widget
        [PerformanceCheck (Some \<lparr>cpu_percent = CpuNumber 95, memory_percent = 90\<rparr>), Optimise 100,
         Elsewhere (demo_widget\<lparr>frame_times := [0.2]\<rparr>), PerformanceCheck None,
         PerformanceCheck (Some \<lparr>cpu_percent = CpuList [10, 20], memory_percent = 40\<rparr>)]) \<le> 1"
proof -
  have start: "quality_level demo_widget = 1" by (simp add: demo_widget_def)
  from quality_level_bounds [OF start] start show ?thesis by blast
qed

section \<open>Simulated entities\<close>

lemma governed_refl: "governed_fields w w"
  by (simp add: governed_fields_def)

lemma governed_trans: "governed_fields a b \<Longrightarrow> governed_fields b c \<Longrightarrow> governed_fields a c"
  unfolding governed_fields_def
  by (cases a, cases b, cases c) simp

lemma frame_time_frame: "governed_fields w (adjust_for_frame_time w)"
  by (cases w) (simp add: governed_fields_def adjust_for_frame_time_def Let_def)

lemma cpu_frame: "governed_fields w (adjust_for_cpu c w)"
  by (cases w) (simp add: governed_fields_def adjust_for_cpu_def Let_def)

lemma memory_frame: "governed_fields w (adjust_for_memory m w)"
  by (cases w) (simp add: governed_fields_def adjust_for_memory_def Let_def)

lemma adjustment_frame: "governed_fields w (adaptive_performance_adjustment w sample)"
proof (cases sample)
  case None
  then show ?thesis by (simp add: adaptive_performance_adjustment_def governed_refl)
next
  case (Some s)
  have "governed_fields w (adjust_for_memory m (adjust_for_cpu c (adjust_for_frame_time w)))" for m c
    using governed_trans [OF governed_trans [OF frame_time_frame cpu_frame] memory_frame] .
  with Some show ?thesis by (simp add: adaptive_performance_adjustment_def Let_def)
qed

lemma mystify_throttle_frame:
  "mystify_check_emergency_cpu_throttle w reading
     = w\<lparr>is_emergency_throttled := is_emergency_throttled (mystify_check_emergency_cpu_throttle w reading),
         timer_interval := timer_interval (mystify_check_emergency_cpu_throttle w reading)\<rparr>"
  by (cases w)
     (simp add: mystify_check_emergency_cpu_throttle_def Let_def split: option.splits cpu_reading.splits)

lemma sidekick_throttle_frame:
  "sidekick_check_emergency_cpu_throttle r reading
     = r\<lparr>rain_throttled := rain_throttled (sidekick_check_emergency_cpu_throttle r reading),
         rain_timer_interval := rain_timer_interval (sidekick_check_emergency_cpu_throttle r reading)\<rparr>"
  by (cases r)
     (simp add: sidekick_check_emergency_cpu_throttle_def Let_def split: option.splits cpu_reading.splits)

text \<open>
  C6, as the code has it. A performance check and an emergency check leave the list of
  shapes (in the rain widget: of columns) as it is, so its length too. The performance
  check changes at most the quality level, the frame-skip ratio and the trail length; the
  emergency check changes at most the timer interval and the emergency-throttle flag.
\<close>

theorem checks_keep_entities:
  "shapes (adaptive_performance_adjustment w sample) = shapes w
   \<and> length (shapes (adaptive_performance_adjustment w sample)) = length (shapes w)
   \<and> adaptive_performance_adjustment w sample
       = w\<lparr>quality_level := quality_level (adaptive_performance_adjustment w sample),
           frame_skip_ratio := frame_skip_ratio (adaptive_performance_adjustment w sample),
           trail_length := trail_length (adaptive_performance_adjustment w sample)\<rparr>
   \<and> shapes (mystify_check_emergency_cpu_throttle w reading) = shapes w
   \<and> length (shapes (mystify_check_emergency_cpu_throttle w reading)) = length (shapes w)
   \<and> mystify_check_emergency_cpu_throttle w reading
       = w\<lparr>is_emergency_throttled := is_emergency_throttled (mystify_check_emergency_cpu_throttle w reading),
           timer_interval := timer_interval (mystify_check_emergency_cpu_throttle w reading)\<rparr>
   \<and> columns (sidekick_check_emergency_cpu_throttle r reading) = columns r
   \<and> length (columns (sidekick_check_emergency_cpu_throttle r reading)) = length (columns r)
   \<and> sidekick_check_emergency_cpu_throttle r reading
       = r\<lparr>rain_throttled := rain_throttled (sidekick_check_emergency_cpu_throttle r reading),
           rain_timer_interval := rain_timer_interval (sidekick_check_emergency_cpu_throttle r reading)\<rparr>"
proof -
  have a: "adaptive_performance_adjustment w sample
       = w\<lparr>quality_level := quality_level (adaptive_performance_adjustment w sample),
           frame_skip_ratio := frame_skip_ratio (adaptive_performance_adjustment w sample),
           trail_length := trail_length (adaptive_performance_adjustment w sample)\<rparr>"
    using adjustment_frame [of w sample] unfolding governed_fields_def .
  have sa: "shapes (adaptive_performance_adjustment w sample) = shapes w"
    by (subst a) simp
  have sm: "shapes (mystify_check_emergency_cpu_throttle w reading) = shapes w"
    by (subst mystify_throttle_frame) simp
  have ss: "columns (sidekick_check_emergency_cpu_throttle r reading) = columns r"
    by (subst sidekick_throttle_frame) simp
  show ?thesis
    using a sa sm ss mystify_throttle_frame [of w reading] sidekick_throttle_frame [of r reading]
    by simp
qed

text \<open>
  C6, as stated, fails: it lets only the quality level, the frame-skip ratio, the trail
  length and the timer interval change, but an emergency check at 95 % CPU on an
  unthrottled widget also sets the emergency-throttle flag.
\<close>

theorem throttle_flag_changes_counterexample:
  "is_emergency_throttled (mystify_check_emergency_cpu_throttle demo_widget (Some (CpuNumber 95)))
     \<noteq> is_emergency_throttled demo_widget"
  by (simp add: mystify_check_emergency_cpu_throttle_def emergency_cpu_threshold_def demo_widget_def)

section \<open>Rain engine rendering\<close>

lemma draw_chars_length: "length (draw_chars w cx bh H i items) \<le> length items"
  by (induction items arbitrary: i) (auto split: sum.splits)

lemma draw_chars_band:
  "k < length (draw_chars w cx bh H i items) \<Longrightarrow> draw_chars w cx bh H i items ! k = Draw d \<Longrightarrow>
   - 50 \<le> fst (snd (items ! k)) \<and> fst (snd (items ! k)) \<le> real_of_int (H + 50)
   \<and> draw_y d = py_int (fst (snd (items ! k)))"
proof (induction items arbitrary: i k)
  case Nil
  then show ?case by simp
next
  case (Cons item rest)
  obtain ch pos age where item: "item = (ch, pos, age)" by (cases item) auto
  show ?case
  proof (cases k)
    case 0
    with Cons.prems item show ?thesis by (auto split: if_splits sum.splits)
  next
    case (Suc j)
    with Cons.prems item have "j < length (draw_chars w cx bh H (Suc i) rest)"
      and "draw_chars w cx bh H (Suc i) rest ! j = Draw d"
      by (auto split: if_splits sum.splits)
    from Cons.IH [OF this] Suc show ?thesis by simp
  qed
qed

lemma py_int_band:
  assumes "- 50 \<le> x" and "x \<le> real_of_int (H + 50)"
  shows "- 50 \<le> py_int x \<and> py_int x \<le> H + 50"
  using assms unfolding py_int_def
  by (auto simp: le_floor_iff ceiling_le_iff floor_le_iff le_ceiling_iff)

lemma painted_set: "d \<in> set (painted outs) \<longleftrightarrow> Draw d \<in> set outs"
  by (induction outs) (auto simp: painted_def split: outcome.splits)

lemma draw_column_drawn:
  assumes "k < length (draw_column w c H t)" and "draw_column w c H t ! k = Draw d"
  shows "k < length (char_positions c)
       \<and> - 50 \<le> char_positions c ! k \<and> char_positions c ! k \<le> real_of_int H + 50
       \<and> \<not> (char_positions c ! k < - 50 \<or> char_positions c ! k > real_of_int H + 50)
       \<and> draw_y d = py_int (char_positions c ! k) \<and> - 50 \<le> draw_y d \<and> draw_y d \<le> H + 50"
proof -
  let ?items = "zip (characters c) (zip (char_positions c) (char_ages c))"
  let ?bh = "py_fmod (t * 100 + real_of_int (column_x c)) 360"
  have outs: "draw_column w c H t = draw_chars w (column_x c) ?bh H 0 ?items"
    by (simp add: draw_column_def)
  have "k < length ?items"
    using assms(1) draw_chars_length [of w "column_x c" ?bh H 0 ?items] unfolding outs
    by linarith
  then have kl: "k < length (char_positions c)"
    and pos: "fst (snd (?items ! k)) = char_positions c ! k"
    by simp_all
  from draw_chars_band [of k w "column_x c" ?bh H 0 ?items d] assms
  have band: "- 50 \<le> char_positions c ! k \<and> char_positions c ! k \<le> real_of_int (H + 50)
       \<and> draw_y d = py_int (char_positions c ! k)"
    unfolding outs pos by simp
  with py_int_band [of "char_positions c ! k" H]
  have "- 50 \<le> py_int (char_positions c ! k) \<and> py_int (char_positions c ! k) \<le> H + 50"
    by simp
  with band kl show ?thesis by simp
qed

text \<open>So every painter call of a column is inside the band.\<close>

lemma painted_band:
  assumes "d \<in> set (painted (draw_column w c H t))"
  shows "- 50 \<le> draw_y d \<and> draw_y d \<le> H + 50"
proof -
  from assms have "Draw d \<in> set (draw_column w c H t)"
    by (simp add: painted_set)
  then obtain k where "k < length (draw_column w c H t)" and "draw_column w c H t ! k = Draw d"
    by (auto simp: in_set_conv_nth)
  from draw_column_drawn [OF this] show ?thesis by simp
qed

text \<open>
  C7. Whatever \<^verbatim>\<open>draw_column\<close> does with the character at index \<open>k\<close>, it draws it
  only if its position lies in \<open>[-50, screen_height + 50]\<close>, and then at the truncated
  position; so every \<^verbatim>\<open>drawText\<close> call of a column has its vertical coordinate in that
  band. A character with a position below \<open>-50\<close> or above \<open>screen_height + 50\<close> is
  never drawn.
\<close>

theorem draw_column_band:
  assumes "k < length (draw_column w c H t)" and "draw_column w c H t ! k = Draw d"
  shows "k < length (char_positions c)
       \<and> - 50 \<le> char_positions c ! k \<and> char_positions c ! k \<le> real_of_int H + 50
       \<and> \<not> (char_positions c ! k < - 50 \<or> char_positions c ! k > real_of_int H + 50)
       \<and> draw_y d = py_int (char_positions c ! k) \<and> - 50 \<le> draw_y d \<and> draw_y d \<le> H + 50"
  using assms by (rule draw_column_drawn)

lemma demo_draw_column:
  "draw_column demo_matrix demo_column 600 0
     = [Draw \<lparr>pen_color = Rgba 255 255 255 255, draw_x = 40, draw_y = 120, drawn_char = 65\<rparr>,
        Draw \<lparr>pen_color = Rgba 0 255 0 243, draw_x = 40, draw_y = 100, drawn_char = 66\<rparr>,
        Skip]"
  by (simp add: draw_column_def demo_matrix_def setup_colors_def base_colors_def dict_get_def
      demo_column_def char_color_def py_int_def Let_def)

theorem draw_column_band_witness:
  "1 < length (draw_column demo_matrix demo_column 600 0)
   \<and> draw_column demo_matrix demo_column 600 0 ! 1
       = Draw \<lparr>pen_color = Rgba 0 255 0 243, draw_x = 40, draw_y = 100, drawn_char = 66\<rparr>
   \<and> - 50 \<le> char_positions demo_column ! 1 \<and> char_positions demo_column ! 1 \<le> 600 + 50
   \<and> draw_y \<lparr>pen_color = Rgba 0 255 0 243, draw_x = 40, draw_y = 100, drawn_char = 66\<rparr>
       = py_int (char_positions demo_column ! 1)
   \<and> draw_column demo_matrix demo_column 600 0 ! 2 = Skip"
proof -
  have k: "1 < length (draw_column demo_matrix demo_column 600 0)"
    by (simp add: demo_draw_column)
  have d: "draw_column demo_matrix demo_column 600 0 ! 1
       = Draw \<lparr>pen_color = Rgba 0 255 0 243, draw_x = 40, draw_y = 100, drawn_char = 66\<rparr>"
    by (simp add: demo_draw_column)
  from draw_column_band [OF k d] k d show ?thesis
    by (simp add: demo_draw_column)
qed

section \<open>Drift overlay\<close>

lemma py_fmod_self: "d \<noteq> 0 \<Longrightarrow> py_fmod d d = 0"
  by (simp add: py_fmod_def)

lemma py_fmod_zero: "py_fmod 0 d = 0"
  by (simp add: py_fmod_def)

text \<open>
  C9. The drift position at elapsed time 0 and at elapsed time \<open>drift_cycle_duration\<close>
  is the same, for every screen size, margin, cycle duration and setting of the drift
  switch; with drift enabled and a cycle duration other than 0 both are the top left
  corner of the path, \<open>(margin, margin)\<close>.
\<close>

theorem drift_cycle_closed:
  "calculate_drift_position d (stats_drift_start_time d) sw sh
     = calculate_drift_position d (stats_drift_start_time d + real_of_int (drift_cycle_duration d)) sw sh
   \<and> (dict_get (stats_drift d) True \<and> drift_cycle_duration d \<noteq> 0 \<longrightarrow>
        calculate_drift_position d (stats_drift_start_time d + real_of_int (drift_cycle_duration d)) sw sh
          = Inr (drift_margin d, drift_margin d))"
  by (simp add: calculate_drift_position_def py_fmod_self py_fmod_zero Let_def py_int_def)

theorem drift_cycle_closed_witness:
  "calculate_drift_position demo_overlay 1000 1920 1080
     = calculate_drift_position demo_overlay 1480 1920 1080
   \<and> dict_get (stats_drift demo_overlay) True \<and> drift_cycle_duration demo_overlay \<noteq> 0
   \<and> calculate_drift_position demo_overlay 1480 1920 1080 = Inr (50, 50)"
proof -
  have start: "stats_drift_start_time demo_overlay = 1000"
    and dur: "real_of_int (drift_cycle_duration demo_overlay) = 480"
    and on: "dict_get (stats_drift demo_overlay) True"
    and margin: "drift_margin demo_overlay = 50"
    by (simp_all add: demo_overlay_def dict_get_def)
  from drift_cycle_closed [of demo_overlay 1920 1080] on
  show ?thesis unfolding start dur margin by (simp add: demo_overlay_def)
qed

section \<open>Curve engine initialisation\<close>

lemma randint_value:
  "a \<le> b \<Longrightarrow> randint a b g = Inr (a + int (fst g (snd g) mod nat (b - a + 1)), (fst g, Suc (snd g)))"
  by (simp add: randint_def)

lemma randint_range:
  assumes "randint a b g = Inr (n, g1)"
  shows "a \<le> n \<and> n \<le> b"
proof -
  from assms have ab: "a \<le> b" and n: "n = a + int (fst g (snd g) mod nat (b - a + 1))"
    by (auto simp: randint_def split: if_splits)
  have "fst g (snd g) mod nat (b - a + 1) < nat (b - a + 1)"
    using ab by (intro mod_less_divisor) simp
  then have "int (fst g (snd g) mod nat (b - a + 1)) < b - a + 1"
    using ab by linarith
  with n show ?thesis by simp
qed

lemma init_control_points_lengths:
  "init_control_points n width height spd g = Inr ((ps, vs, cs), g1) \<Longrightarrow>
   length ps = n \<and> length vs = n \<and> length cs = n"
  by (induction n arbitrary: g ps vs cs g1)
     (auto simp: Let_def split: sum.splits prod.splits)

lemma init_control_points_returns:
  assumes "200 \<le> width" and "200 \<le> height"
  shows "\<exists>r. init_control_points n width height spd g = Inr r"
proof (induction n arbitrary: g)
  case 0
  then show ?case by simp
next
  case (Suc n)
  have x: "100 \<le> width - 100" and y: "100 \<le> height - 100" using assms by simp_all
  show ?case
    by (auto simp: randint_value [OF x] randint_value [OF y] Let_def split: prod.splits sum.splits)
       (metis Suc.IH sum.distinct(1))
qed

lemma init_shape_lengths:
  "init_shape complexity spd width height g = Inr (s, g1) \<Longrightarrow>
   length (control_points s) = nat (max 3 (complexity div 2))
   \<and> length (velocities s) = nat (max 3 (complexity div 2))"
  by (auto simp: init_shape_def Let_def split: sum.splits prod.splits
      dest!: init_control_points_lengths)

lemma init_shape_returns:
  assumes "200 \<le> width" and "200 \<le> height"
  shows "\<exists>r. init_shape complexity spd width height g = Inr r"
  using init_control_points_returns [OF assms]
  by (auto simp: init_shape_def randint_value Let_def split: prod.splits sum.splits)
     (metis sum.distinct(1))

lemma init_shape_list_lengths:
  "init_shape_list n complexity spd width height g = Inr (ss, g1) \<Longrightarrow>
   length ss = n \<and> (\<forall>s \<in> set ss. length (control_points s) = nat (max 3 (complexity div 2))
   \<and> length (velocities s) = nat (max 3 (complexity div 2)))"
proof (induction n arbitrary: g ss g1)
  case 0
  then show ?case by simp
next
  case (Suc n)
  then show ?case
    by (auto split: sum.splits prod.splits dest!: init_shape_lengths)
qed

lemma init_shape_list_returns:
  assumes "200 \<le> width" and "200 \<le> height"
  shows "\<exists>r. init_shape_list n complexity spd width height g = Inr r"
proof (induction n arbitrary: g)
  case 0
  then show ?case by simp
next
  case (Suc n)
  obtain s g1 where s: "init_shape complexity spd width height g = Inr (s, g1)"
    using init_shape_returns [OF assms, of complexity spd g] by (metis surj_pair)
  obtain ss g2 where ss: "init_shape_list n complexity spd width height g1 = Inr (ss, g2)"
    using Suc.IH [of g1] by (metis surj_pair)
  show ?case by (simp add: s ss)
qed

text \<open>On a screen narrower or lower than 200 pixels the range of a starting position
  is empty: the first control point raises, whatever the generator.\<close>

lemma init_control_points_small_screen:
  "width < 200 \<or> height < 200 \<Longrightarrow>
   init_control_points (Suc n) width height spd g = Inl ValueError"
  by (auto simp: randint_def)

lemma init_shape_small_screen:
  assumes "width < 200 \<or> height < 200"
  shows "init_shape complexity spd width height g = Inl ValueError"
proof -
  obtain n where n: "nat (max 3 (complexity div 2)) = Suc n"
    by (cases "nat (max 3 (complexity div 2))") auto
  show ?thesis
    by (simp add: init_shape_def randint_def Let_def n
        init_control_points_small_screen [OF assms] split: prod.splits
        del: init_control_points.simps)
qed

lemma init_shape_list_small_screen:
  "width < 200 \<or> height < 200 \<Longrightarrow>
   init_shape_list (Suc n) complexity spd width height g = Inl ValueError"
  by (simp add: init_shape_small_screen)

text \<open>
  C8, as the code has it. With \<^verbatim>\<open>mystify_shapes = 3\<close> and \<^verbatim>\<open>mystify_complexity = 6\<close>
  in the settings, on a primary screen of at least 200 by 200 pixels and for every state
  of the random generator, constructing the widget returns, with exactly 3 shapes, each
  of exactly 3 control points and 3 velocities. On a screen narrower or lower than 200
  pixels the construction raises \<^verbatim>\<open>ValueError\<close> instead, whatever the generator, and
  there is no shape.
\<close>

theorem init_three_shapes:
  assumes "mystify_shapes st = Some 3" and "mystify_complexity st = Some 6"
  shows "(200 \<le> width \<and> 200 \<le> height \<longrightarrow>
          (\<exists>w g1. mystify_widget_init st width height g = Inr (w, g1)
             \<and> length (shapes w) = 3
             \<and> (\<forall>s \<in> set (shapes w). length (control_points s) = 3 \<and> length (velocities s) = 3)))
       \<and> (small_width < 200 \<or> small_height < 200 \<longrightarrow>
            mystify_widget_init st small_width small_height g = Inl ValueError)"
proof (intro conjI impI)
  assume screen: "200 \<le> width \<and> 200 \<le> height"
  let ?spd = "dict_get (mystify_speed st) 2"
  obtain ss g1 where r: "init_shape_list 3 6 ?spd width height g = Inr (ss, g1)"
    using init_shape_list_returns [of width height 3 6 ?spd g] screen by auto
  from init_shape_list_lengths [OF r]
  have "length ss = 3"
    and "\<forall>s \<in> set ss. length (control_points s) = 3 \<and> length (velocities s) = 3"
    by simp_all
  with r assms show "\<exists>w g1. mystify_widget_init st width height g = Inr (w, g1)
       \<and> length (shapes w) = 3
       \<and> (\<forall>s \<in> set (shapes w). length (control_points s) = 3 \<and> length (velocities s) = 3)"
    by (simp add: mystify_widget_init_def init_shapes_def dict_get_def Let_def)
next
  assume small: "small_width < 200 \<or> small_height < 200"
  have "init_shape_list (Suc (Suc (Suc 0))) 6 (dict_get (mystify_speed st) 2)
          small_width small_height g = Inl ValueError"
    by (rule init_shape_list_small_screen [OF small])
  with assms show "mystify_widget_init st small_width small_height g = Inl ValueError"
    by (simp add: mystify_widget_init_def init_shapes_def dict_get_def Let_def numeral_3_eq_3
        del: init_shape_list.simps)
qed

theorem init_three_shapes_witness:
  "mystify_shapes demo_settings = Some 3 \<and> mystify_complexity demo_settings = Some 6
   \<and> (200 :: int) \<le> 1920 \<and> (200 :: int) \<le> 1080
   \<and> (case mystify_widget_init demo_settings 1920 1080 (\<lambda>n. 7 * n, 0) of
         Inl e \<Rightarrow> []
       | Inr (w, g) \<Rightarrow> map (\<lambda>s. (length (control_points s), length (velocities s))) (shapes w))
      = [(3, 3), (3, 3), (3, 3)]
   \<and> (199 :: int) < 200
   \<and> mystify_widget_init demo_settings 199 1080 (\<lambda>n. 7 * n, 0) = Inl ValueError"
proof -
  have n: "mystify_shapes demo_settings = Some 3" and c: "mystify_complexity demo_settings = Some 6"
    by (simp_all add: demo_settings_def)
  note t = init_three_shapes [OF n c, of 1920 1080 "(\<lambda>n. 7 * n, 0)" 199 1080]
  from t obtain w g1 where
    r: "mystify_widget_init demo_settings 1920 1080 (\<lambda>n. 7 * n, 0) = Inr (w, g1)"
    and l: "length (shapes w) = 3"
    and p: "\<forall>s \<in> set (shapes w). length (control_points s) = 3 \<and> length (velocities s) = 3"
    by auto
  from t have small: "mystify_widget_init demo_settings 199 1080 (\<lambda>n. 7 * n, 0) = Inl ValueError"
    by simp
  from l obtain a b d where abd: "shapes w = [a, b, d]"
    by (auto simp: numeral_3_eq_3 length_Suc_conv)
  with p r n c small show ?thesis by simp
qed

text \<open>
  C8, as stated, fails on a small primary screen: with the same settings and a screen
  199 pixels wide, \<^verbatim>\<open>random.randint(100, width - 100)\<close> has an empty range and the
  construction raises instead of producing 3 shapes.
\<close>

theorem init_small_screen_counterexample:
  "mystify_widget_init demo_settings 199 1080 (\<lambda>n. 7 * n, 0) = Inl ValueError"
  by (simp add: mystify_widget_init_def init_shapes_def init_shape_def randint_def uniform_def
      demo_settings_def dict_get_def Let_def numeral_3_eq_3)

section \<open>Hue of a shape\<close>

lemma py_fmod_range: "0 \<le> py_fmod x 360 \<and> py_fmod x 360 < 360"
proof -
  have "real_of_int \<lfloor>x / 360\<rfloor> \<le> x / 360" and "x / 360 < real_of_int \<lfloor>x / 360\<rfloor> + 1"
    by linarith+
  then show ?thesis by (simp add: py_fmod_def field_simps)
qed

text \<open>One frame keeps every hue in \<open>[0, 360)\<close>: a hue is either left alone or
  replaced by a float modulo 360.\<close>

lemma update_shape_shapes:
  assumes "update_shape W H i (w, g) = Inr (w1, g1)"
  shows "\<exists>s. shapes w1 = (shapes w)[i := s]
           \<and> (color_hue s = color_hue (shapes w ! i)
               \<or> color_hue s = py_fmod (color_hue (shapes w ! i) + color_shift (shapes w ! i)) 360)"
  using assms
  by (auto simp: update_shape_def Let_def split: if_splits sum.splits prod.splits)

text \<open>A frame visits every shape and replaces it in place: the number of shapes stays.\<close>

lemma update_shape_length:
  assumes "update_shape W H i (w, g) = Inr (w1, g1)"
  shows "length (shapes w1) = length (shapes w)"
  using update_shape_shapes [OF assms] by auto

lemma update_loop_length:
  "update_loop W H idxs (w, g) = Inr (w1, g1) \<Longrightarrow> length (shapes w1) = length (shapes w)"
proof (induction idxs arbitrary: w g)
  case Nil
  then show ?case by simp
next
  case (Cons i idxs)
  from Cons.prems obtain w2 g2 where
    step: "update_shape W H i (w, g) = Inr (w2, g2)"
    and rest: "update_loop W H idxs (w2, g2) = Inr (w1, g1)"
    by (auto split: sum.splits)
  from Cons.IH [OF rest] update_shape_length [OF step] show ?case by simp
qed

lemma update_shape_animations_length:
  "update_shape_animations w W H g = Inr (w1, g1) \<Longrightarrow> length (shapes w1) = length (shapes w)"
  by (auto simp: update_shape_animations_def split: if_splits dest: update_loop_length)

lemma update_shape_hue:
  assumes "update_shape W H i (w, g) = Inr (w1, g1)" and "i < length (shapes w)"
    and "\<forall>s \<in> set (shapes w). hue_ok s"
  shows "length (shapes w1) = length (shapes w) \<and> (\<forall>s \<in> set (shapes w1). hue_ok s)"
proof -
  from update_shape_shapes [OF assms(1)] obtain s where
    s: "shapes w1 = (shapes w)[i := s]"
    and h: "color_hue s = color_hue (shapes w ! i)
            \<or> color_hue s = py_fmod (color_hue (shapes w ! i) + color_shift (shapes w ! i)) 360"
    by blast
  have "hue_ok (shapes w ! i)" using assms(2,3) by simp
  with h have "hue_ok s" using py_fmod_range by (auto simp: hue_ok_def)
  with assms(3) s show ?thesis
    by (auto dest: subsetD [OF set_update_subset_insert])
qed

lemma update_loop_hue:
  assumes "update_loop W H idxs (w, g) = Inr (w1, g1)"
    and "\<forall>i \<in> set idxs. i < length (shapes w)" and "\<forall>s \<in> set (shapes w). hue_ok s"
  shows "length (shapes w1) = length (shapes w) \<and> (\<forall>s \<in> set (shapes w1). hue_ok s)"
  using assms
proof (induction idxs arbitrary: w g)
  case Nil
  then show ?case by simp
next
  case (Cons i idxs)
  from Cons.prems(1) obtain w2 g2 where
    step: "update_shape W H i (w, g) = Inr (w2, g2)"
    and rest: "update_loop W H idxs (w2, g2) = Inr (w1, g1)"
    by (auto split: sum.splits)
  from update_shape_hue [OF step] Cons.prems(2,3)
  have l: "length (shapes w2) = length (shapes w)" and h: "\<forall>s \<in> set (shapes w2). hue_ok s"
    by simp_all
  from Cons.IH [OF rest] l h Cons.prems(2) show ?case by simp
qed

lemma update_shape_animations_hue:
  assumes "update_shape_animations w W H g = Inr (w1, g1)"
    and "\<forall>s \<in> set (shapes w). hue_ok s"
  shows "length (shapes w1) = length (shapes w) \<and> (\<forall>s \<in> set (shapes w1). hue_ok s)"
proof -
  from assms(1) have ne: "shapes w \<noteq> []"
    by (auto simp: update_shape_animations_def split: if_splits)
  with assms(1) have "update_loop W H
       (map (\<lambda>idx. (frame_count w mod length (shapes w) + idx) mod length (shapes w))
            [0..<length (shapes w)]) (w, g) = Inr (w1, g1)"
    by (simp add: update_shape_animations_def)
  from update_loop_hue [OF this _ assms(2)] ne show ?thesis by simp
qed

text \<open>The initial hue is an integer from 0 to 360, both included.\<close>

lemma init_shape_hue:
  "init_shape complexity spd width height g = Inr (s, g1) \<Longrightarrow>
   0 \<le> color_hue s \<and> color_hue s \<le> 360"
  by (auto simp: init_shape_def Let_def split: sum.splits prod.splits dest!: randint_range)

lemma three_Suc: "(3 :: nat) = Suc (Suc (Suc 0))"
  by simp

text \<open>
  C10 at the failing input. The hue of a new shape is \<^verbatim>\<open>random.randint(0, 360)\<close>, whose
  range includes 360: when the generator draws 360, the widget comes out of its
  constructor with hues equal to 360, outside \<open>[0, 360)\<close>.
\<close>

theorem init_hue_out_of_range:
  "(case mystify_widget_init demo_settings 1920 1080 (\<lambda>n. 360, 0) of
      Inl e \<Rightarrow> []
    | Inr (w, g) \<Rightarrow> map (\<lambda>s. (color_hue s, hue_ok s)) (shapes w))
   = [(360, False), (360, False), (360, False)]"
  by (simp add: mystify_widget_init_def init_shapes_def init_shape_def randint_def uniform_def
      demo_settings_def dict_get_def hue_ok_def Let_def three_Suc)

section \<open>Trail length\<close>

text \<open>The limit of the trail is the formula of the data model.\<close>

lemma max_trail_formula:
  "max_trail L q = max (max 5 (L div 4)) \<lfloor>real_of_int L * q\<rfloor>"
proof (cases "0 \<le> real_of_int L * q")
  case True
  then show ?thesis by (simp add: max_trail_def min_trail_def py_int_def)
next
  case False
  then have "\<lceil>real_of_int L * q\<rceil> \<le> 0" and "\<lfloor>real_of_int L * q\<rfloor> \<le> 0"
    by (simp_all add: ceiling_le_iff floor_le_iff)
  then have "max (max 5 (L div 4)) \<lceil>real_of_int L * q\<rceil> = max 5 (L div 4)"
    and "max (max 5 (L div 4)) \<lfloor>real_of_int L * q\<rfloor> = max 5 (L div 4)"
    by linarith+
  with False show ?thesis by (simp add: max_trail_def min_trail_def py_int_def)
qed

text \<open>Storing a curve removes at most one old curve: a trail within the limit stays
  within it, a trail at or over the limit keeps its length.\<close>

lemma store_curve_length:
  "length (store_curve L q c trail)
     = (if int (length trail) + 1 > max_trail L q then length trail else length trail + 1)"
  by (simp add: store_curve_def Let_def)

lemma store_curve_within_cap:
  "int (length trail) \<le> max_trail L q \<Longrightarrow> int (length (store_curve L q c trail)) \<le> max_trail L q"
  by (simp add: store_curve_length)

lemma store_curve_over_cap:
  "int (length trail) \<ge> max_trail L q \<Longrightarrow> length (store_curve L q c trail) = length trail"
  by (simp add: store_curve_length)

lemma full_trail_within_cap:
  "map (\<lambda>trail. int (length trail)) (shape_trails demo_widget_full_trail) = [50]
   \<and> max_trail (trail_length demo_widget_full_trail) (quality_level demo_widget_full_trail) = 50"
  by (simp add: demo_widget_full_trail_def demo_widget_def max_trail_def min_trail_def py_int_def)

text \<open>
  C1 at the failing input. The example widget has filled its trail with 50 curves at
  quality 1 (trail length 50, limit 50). A performance check at 95 % CPU and 90 % memory
  lowers the quality to 0.8 and the trail length to 40, so the limit is
  \<open>max (max 5 (40 div 4)) \<lfloor>40 * 0.8\<rfloor> = 32\<close>. The next frame appends a curve and
  removes one: the trail holds 50 curves, not at most 32.
\<close>

theorem trail_exceeds_cap:
  "(case update_shape_animations
           (adaptive_performance_adjustment demo_widget_full_trail
              (Some \<lparr>cpu_percent = CpuNumber 95, memory_percent = 90\<rparr>))
           1920 1080 (\<lambda>n. 0, 0) of
      Inl e \<Rightarrow> []
    | Inr (w, g) \<Rightarrow>
        map (\<lambda>trail. (int (length trail), max_trail (trail_length w) (quality_level w),
                       max (max 5 (trail_length w div 4)) \<lfloor>real_of_int (trail_length w) * quality_level w\<rfloor>))
          (shape_trails w))
   = [(50, 32, 32)]"
  by (simp add: update_shape_animations_def update_shape_def adaptive_performance_adjustment_def
      adjust_for_frame_time_def adjust_for_cpu_def adjust_for_memory_def cpu_threshold_def
      memory_threshold_def demo_widget_full_trail_def demo_widget_def demo_shape_def
      store_curve_length max_trail_def min_trail_def py_int_def uniform_def Let_def)

end
